theory Spec2Isabelle
  imports Main "HOL-Library.Sublist"
begin

section \<open>JavaScript values shared by the fragments\<close>

text \<open>
  Strings are byte strings: a JavaScript string is represented by its UTF-8 encoding.
  A thrown \<^verbatim>\<open>new Error(msg)\<close> is the value \<open>Error msg\<close>, a
  \<^verbatim>\<open>TypeError\<close> raised by the engine is \<open>TypeError msg\<close>; a function that may throw returns
  \<open>js_error + 'a\<close>, with \<open>Inl\<close> for the throw.
\<close>

datatype js_error = Error string | TypeError string

fun message :: "js_error \<Rightarrow> string" where
  "message (Error m) = m"
| "message (TypeError m) = m"

text \<open>What an awaited promise settles to.\<close>

datatype 'a settled = Resolved 'a | Rejected js_error

text \<open>
  A value of type \<^verbatim>\<open>string | undefined\<close> is a \<open>string option\<close>. The test \<^verbatim>\<open>!v\<close> holds
  for \<^verbatim>\<open>undefined\<close> and for the empty string; \<^verbatim>\<open>v ?? d\<close> replaces only \<^verbatim>\<open>undefined\<close>.
\<close>

fun falsy :: "string option \<Rightarrow> bool" where
  "falsy None = True"
| "falsy (Some v) = (v = [])"

fun nullish :: "'a option \<Rightarrow> 'a \<Rightarrow> 'a" where
  "nullish None d = d"
| "nullish (Some v) d = v"

section \<open>Environment configuration (config/env.ts)\<close>

text \<open>\<^verbatim>\<open>import.meta.env\<close>: the variables that are set, each with its string value.\<close>

type_synonym import_meta_env = "string \<rightharpoonup> string"

record AppEnv =
  itwinClientId :: string
  redirectUri :: string
  postSignoutRedirectUri :: string
  scope :: string
  authority :: string
  demoITwinId :: "string option"
  demoIModelId :: "string option"
  marketingBaseUrl :: string

definition requireEnv :: "import_meta_env \<Rightarrow> string \<Rightarrow> js_error + string" where
  "requireEnv ime name =
     (case ime name of
        None \<Rightarrow> Inl (Error (''Missing required env var: '' @ name))
      | Some v \<Rightarrow>
          if falsy (Some v) then Inl (Error (''Missing required env var: '' @ name))
          else Inr v)"

text \<open>
  The object literal evaluates its properties in the order written, so the first
  \<^verbatim>\<open>requireEnv\<close> that throws ends the construction.
\<close>

definition env :: "import_meta_env \<Rightarrow> js_error + AppEnv" where
  "env ime =
     (case requireEnv ime ''VITE_ITWIN_CLIENT_ID'' of
        Inl e \<Rightarrow> Inl e
      | Inr cid \<Rightarrow>
     (case requireEnv ime ''VITE_ITWIN_REDIRECT_URI'' of
        Inl e \<Rightarrow> Inl e
      | Inr ruri \<Rightarrow>
     (case requireEnv ime ''VITE_ITWIN_POST_SIGNOUT_REDIRECT_URI'' of
        Inl e \<Rightarrow> Inl e
      | Inr psuri \<Rightarrow>
          Inr \<lparr> itwinClientId = cid,
                redirectUri = ruri,
                postSignoutRedirectUri = psuri,
                scope = nullish (ime ''VITE_ITWIN_SCOPE'') ''itwin-platform'',
                authority = nullish (ime ''VITE_ITWIN_AUTHORITY'') ''https://ims.bentley.com'',
                demoITwinId = ime ''VITE_DEMO_ITWIN_ID'',
                demoIModelId = ime ''VITE_DEMO_IMODEL_ID'',
                marketingBaseUrl = nullish (ime ''VITE_MARKETING_BASE_URL'') ''/'' \<rparr>)))"

text \<open>The keys read through \<^verbatim>\<open>requireEnv\<close>, in the order of the calls.\<close>

definition required_keys :: "string list" where
  "required_keys =
     [''VITE_ITWIN_CLIENT_ID'', ''VITE_ITWIN_REDIRECT_URI'',
      ''VITE_ITWIN_POST_SIGNOUT_REDIRECT_URI'']"

section \<open>Chat widget (static/ai_script.js)\<close>

subsection \<open>Values and string operations\<close>

text \<open>
  The parsed response body. A JavaScript value that may be \<^verbatim>\<open>undefined\<close> is a
  \<open>json option\<close>. \<^verbatim>\<open>JSON.parse\<close> keeps the last of several equal keys.
\<close>

datatype json =
    JNull
  | JBool bool
  | JNumber int
  | JString string
  | JArray "json list"
  | JObject "(string \<times> json) list"

text \<open>\<^verbatim>\<open>data.reply\<close>: reading a property of \<^verbatim>\<open>null\<close> throws, a missing property is undefined.\<close>

fun get_reply :: "json \<Rightarrow> js_error + json option" where
  "get_reply JNull = Inl (TypeError ''Cannot read properties of null'')"
| "get_reply (JObject kvs) = Inr (map_of (rev kvs) ''reply'')"
| "get_reply (JBool b) = Inr None"
| "get_reply (JNumber n) = Inr None"
| "get_reply (JString s) = Inr None"
| "get_reply (JArray xs) = Inr None"

text \<open>
  \<^verbatim>\<open>String.prototype.trim\<close> removes white space and line terminators from both ends of the
  string. These are the code points U+0009 to U+000D, U+0020, U+00A0, U+1680, U+2000 to
  U+200A, U+2028, U+2029, U+202F, U+205F, U+3000 and U+FEFF, listed here by their UTF-8
  encodings.
\<close>

definition white_space :: "string list" where
  "white_space =
     [[CHR 0x09], [CHR 0x0A], [CHR 0x0B], [CHR 0x0C], [CHR 0x0D], [CHR 0x20],
      [CHR 0xC2, CHR 0xA0],
      [CHR 0xE1, CHR 0x9A, CHR 0x80],
      [CHR 0xE2, CHR 0x80, CHR 0x80], [CHR 0xE2, CHR 0x80, CHR 0x81],
      [CHR 0xE2, CHR 0x80, CHR 0x82], [CHR 0xE2, CHR 0x80, CHR 0x83],
      [CHR 0xE2, CHR 0x80, CHR 0x84], [CHR 0xE2, CHR 0x80, CHR 0x85],
      [CHR 0xE2, CHR 0x80, CHR 0x86], [CHR 0xE2, CHR 0x80, CHR 0x87],
      [CHR 0xE2, CHR 0x80, CHR 0x88], [CHR 0xE2, CHR 0x80, CHR 0x89],
      [CHR 0xE2, CHR 0x80, CHR 0x8A],
      [CHR 0xE2, CHR 0x80, CHR 0xA8], [CHR 0xE2, CHR 0x80, CHR 0xA9],
      [CHR 0xE2, CHR 0x80, CHR 0xAF],
      [CHR 0xE2, CHR 0x81, CHR 0x9F],
      [CHR 0xE3, CHR 0x80, CHR 0x80],
      [CHR 0xEF, CHR 0xBB, CHR 0xBF]]"

text \<open>
  The length of the first of the given byte sequences that the string starts with, and
  0 when it starts with none of them.
\<close>

definition leading :: "string list \<Rightarrow> string \<Rightarrow> nat" where
  "leading seqs s = (case find (\<lambda>w. prefix w s) seqs of None \<Rightarrow> 0 | Some w \<Rightarrow> length w)"

text \<open>Removing such sequences from the front for as long as there is one.\<close>

fun strip_leading :: "string list \<Rightarrow> string \<Rightarrow> string" where
  "strip_leading seqs [] = []"
| "strip_leading seqs (c # cs) =
     (case leading seqs (c # cs) of
        0 \<Rightarrow> c # cs
      | Suc n \<Rightarrow> strip_leading seqs (drop n cs))"

text \<open>
  At the end of the string the same is done on the reversed string with the reversed
  sequences. Each sequence begins with a byte that never occurs inside the encoding of
  another character, so a sequence that ends an encoded string is its last character.
\<close>

definition trimStart :: "string \<Rightarrow> string" where
  "trimStart s = strip_leading white_space s"

definition trimEnd :: "string \<Rightarrow> string" where
  "trimEnd s = rev (strip_leading (map rev white_space) (rev s))"

definition trim :: "string \<Rightarrow> string" where
  "trim s = trimEnd (trimStart s)"

text \<open>\<^verbatim>\<open>str.replace(/c/g, r)\<close> for a one-character pattern \<open>c\<close>.\<close>

definition replace_all :: "char \<Rightarrow> string \<Rightarrow> string \<Rightarrow> string" where
  "replace_all c r str = concat (map (\<lambda>x. if x = c then r else [x]) str)"

definition escapeHtml :: "string \<Rightarrow> string" where
  "escapeHtml str =
     replace_all (CHR ''>'') ''&gt;''
       (replace_all (CHR ''<'') ''&lt;''
         (replace_all (CHR ''&'') ''&amp;'' str))"

text \<open>
  \<^verbatim>\<open>escapeHtml\<close> as it is called, on any value: only a string has a \<^verbatim>\<open>replace\<close> method
  that can be called.
\<close>

fun escapeHtml_js :: "json option \<Rightarrow> js_error + string" where
  "escapeHtml_js (Some (JString str)) = Inr (escapeHtml str)"
| "escapeHtml_js v = Inl (TypeError ''str.replace is not a function'')"

text \<open>
  The escaping as the specification words it: every character is replaced on its own,
  \<^verbatim>\<open>&\<close> by \<^verbatim>\<open>&amp;\<close>, \<^verbatim>\<open><\<close> by \<^verbatim>\<open>&lt;\<close> and \<^verbatim>\<open>>\<close> by \<^verbatim>\<open>&gt;\<close>. It is compared with
  \<open>escapeHtml\<close> below.
\<close>

definition escape_char :: "char \<Rightarrow> string" where
  "escape_char c =
     (if c = CHR ''&'' then ''&amp;''
      else if c = CHR ''<'' then ''&lt;''
      else if c = CHR ''>'' then ''&gt;''
      else [c])"

definition escapeHtml_spec :: "string \<Rightarrow> string" where
  "escapeHtml_spec str = concat (map escape_char str)"

subsection \<open>The page\<close>

record p_el =
  classList :: "string list"
  innerHTML :: string

record chatbox_el =
  children :: "p_el list"
  scrolled_to_bottom :: bool

record input_el =
  input_value :: string
  focused :: bool

record button_el =
  disabled :: bool
  textContent :: string

text \<open>The three module-level lookups; \<open>None\<close> is \<^verbatim>\<open>getElementById\<close> returning \<^verbatim>\<open>null\<close>.\<close>

record chat_document =
  inputEl :: "input_el option"
  chatboxEl :: "chatbox_el option"
  sendBtn :: "button_el option"

record request =
  url :: string
  http_method :: string
  headers :: "(string \<times> string) list"
  body :: json

text \<open>
  The text a browser shows for an \<^verbatim>\<open>innerHTML\<close> string, for the markup this script
  writes: tags are dropped and the three entities decoded. The flag says whether the
  scan is inside a tag.
\<close>

fun html_text :: "bool \<Rightarrow> string \<Rightarrow> string" where
  "html_text in_tag [] = []"
| "html_text in_tag (c # cs) =
     (if in_tag then (if c = CHR ''>'' then html_text False cs else html_text True cs)
      else if c = CHR ''<'' then html_text True cs
      else if c = CHR ''&'' \<and> take 4 cs = ''amp;'' then CHR ''&'' # html_text False (drop 4 cs)
      else if c = CHR ''&'' \<and> take 3 cs = ''lt;'' then CHR ''<'' # html_text False (drop 3 cs)
      else if c = CHR ''&'' \<and> take 3 cs = ''gt;'' then CHR ''>'' # html_text False (drop 3 cs)
      else c # html_text False cs)"

subsection \<open>appendMessage and sendMessage\<close>

text \<open>
  The element is built before it is attached, so a throw of \<^verbatim>\<open>escapeHtml\<close> leaves the
  page as it was.
\<close>

definition appendMessage ::
  "string \<Rightarrow> json option \<Rightarrow> string \<Rightarrow> chat_document \<Rightarrow> js_error + chat_document" where
  "appendMessage sender text type doc =
     (case chatboxEl doc of
        None \<Rightarrow> Inr doc
      | Some cb \<Rightarrow>
          (case escapeHtml_js text of
             Inl e \<Rightarrow> Inl e
           | Inr escaped \<Rightarrow>
               Inr (doc\<lparr>chatboxEl :=
                     Some (cb\<lparr>children := children cb @
                                 [\<lparr>classList = [''message'', type],
                                   innerHTML = ''<b>'' @ sender @ '':</b> '' @ escaped\<rparr>],
                               scrolled_to_bottom := True\<rparr>)\<rparr>)))"

text \<open>
  A fetch settles to a response or a rejection; the response is represented by what
  its \<^verbatim>\<open>json()\<close> settles to.
\<close>

type_synonym fetch_result = "json settled settled"

definition try_block :: "fetch_result \<Rightarrow> chat_document \<Rightarrow> js_error + chat_document" where
  "try_block net doc =
     (case net of
        Rejected e \<Rightarrow> Inl e
      | Resolved response \<Rightarrow>
          (case response of
             Rejected e \<Rightarrow> Inl e
           | Resolved data \<Rightarrow>
               (case get_reply data of
                  Inl e \<Rightarrow> Inl e
                | Inr reply \<Rightarrow> appendMessage ''AI'' reply ''ai'' doc)))"

definition catch_block :: "chat_document \<Rightarrow> js_error + chat_document" where
  "catch_block doc =
     appendMessage ''AI''
       (Some (JString ''Sorry, something went wrong while contacting the assistant.''))
       ''ai'' doc"

definition finally_block :: "chat_document \<Rightarrow> chat_document" where
  "finally_block doc =
     doc\<lparr>sendBtn := map_option (\<lambda>b. b\<lparr>disabled := False, textContent := ''Send''\<rparr>) (sendBtn doc),
         chatboxEl := map_option (\<lambda>cb. cb\<lparr>scrolled_to_bottom := True\<rparr>) (chatboxEl doc)\<rparr>"

text \<open>
  One call of \<^verbatim>\<open>sendMessage\<close>, run to completion with the given fetch result and no
  other event in between. The result is the page afterwards, the requests issued, and
  whether the call's promise is fulfilled or rejected.
\<close>

definition sendMessage ::
  "fetch_result \<Rightarrow> chat_document \<Rightarrow> chat_document \<times> request list \<times> unit settled" where
  "sendMessage net doc =
     (case inputEl doc of
        None \<Rightarrow> (doc, [], Resolved ())
      | Some inp \<Rightarrow>
     (case chatboxEl doc of
        None \<Rightarrow> (doc, [], Resolved ())
      | Some cb \<Rightarrow>
     (case sendBtn doc of
        None \<Rightarrow> (doc, [], Resolved ())
      | Some btn \<Rightarrow>
          (let text = trim (input_value inp) in
           if text = [] then (doc, [], Resolved ())
           else
             (case appendMessage ''You'' (Some (JString text)) ''user'' doc of
                Inl e \<Rightarrow> (doc, [], Rejected e)
              | Inr doc1 \<Rightarrow>
                  (let doc2 = doc1\<lparr>inputEl := Some (inp\<lparr>input_value := [], focused := True\<rparr>),
                                   sendBtn := Some (btn\<lparr>disabled := True,
                                                        textContent := ''Sending...''\<rparr>)\<rparr>;
                       req = \<lparr>url = ''/chat'', http_method = ''POST'',
                              headers = [(''Content-Type'', ''application/json'')],
                              body = JObject [(''message'', JString text)]\<rparr>
                   in (case try_block net doc2 of
                         Inr doc3 \<Rightarrow> (finally_block doc3, [req], Resolved ())
                       | Inl err \<Rightarrow>
                           (case catch_block doc2 of
                              Inr doc3 \<Rightarrow> (finally_block doc3, [req], Resolved ())
                            | Inl e \<Rightarrow> (finally_block doc2, [req], Rejected e)))))))))"

section \<open>Sign-in callback page (pages/SigninCallback.tsx)\<close>

text \<open>
  The page's state is the message it shows and the navigations it has asked the router
  for. The initial message ends in a horizontal ellipsis (U+2026), three bytes in UTF-8.
\<close>

record signin_page =
  msg :: string
  navigated :: "string list"

definition SigninCallback_initial :: signin_page where
  "SigninCallback_initial =
     \<lparr>msg = ''Signing you in'' @ [CHR 0xE2, CHR 0x80, CHR 0xA6], navigated = []\<rparr>"

text \<open>
  The effect run on mount, given what \<^verbatim>\<open>handleSigninCallback()\<close> settles to.
\<close>

definition SigninCallback_effect :: "unit settled \<Rightarrow> signin_page \<Rightarrow> signin_page" where
  "SigninCallback_effect callback page =
     (case callback of
        Resolved u \<Rightarrow> page\<lparr>navigated := navigated page @ [''/app/viewer'']\<rparr>
      | Rejected e \<Rightarrow> page\<lparr>msg := ''Sign-in failed: '' @ message e\<rparr>)"

text \<open>The text of the rendered \<^verbatim>\<open>div\<close>.\<close>

definition SigninCallback_render :: "signin_page \<Rightarrow> string" where
  "SigninCallback_render page = msg page"

text \<open>The renders of one mount, in order: while pending, and after the effect.\<close>

definition SigninCallback_mount :: "unit settled \<Rightarrow> signin_page list" where
  "SigninCallback_mount callback =
     [SigninCallback_initial, SigninCallback_effect callback SigninCallback_initial]"

section \<open>Viewer page (pages/Viewer.tsx)\<close>

record Hotspot =
  hotspot_id :: string
  title :: string
  description :: string
  ctaLabel :: string
  ctaPath :: string

definition DEFAULT_HOTSPOTS :: "Hotspot list" where
  "DEFAULT_HOTSPOTS =
     [\<lparr>hotspot_id = ''reception'',
       title = ''Reception'',
       description = ''Book a demo or request enterprise security services.'',
       ctaLabel = ''Contact Us'',
       ctaPath = ''/contact-us''\<rparr>,
      \<lparr>hotspot_id = ''showroom'',
       title = ''Showroom'',
       description = ''Explore services and offerings tied to model locations.'',
       ctaLabel = ''View Services'',
       ctaPath = ''/services''\<rparr>]"

text \<open>The state is the selected hotspot, \<open>None\<close> for \<^verbatim>\<open>null\<close>; it starts at the first entry.\<close>

definition Viewer_initial :: "Hotspot option" where
  "Viewer_initial = (case DEFAULT_HOTSPOTS of [] \<Rightarrow> None | h # hs \<Rightarrow> Some h)"

text \<open>\<^verbatim>\<open>s.replace(/\/+$/, "")\<close>: the run of slashes that ends the string is removed.\<close>

definition strip_trailing_slashes :: "string \<Rightarrow> string" where
  "strip_trailing_slashes s = rev (dropWhile (\<lambda>c. c = CHR ''/'') (rev s))"

definition marketingUrl :: "AppEnv \<Rightarrow> string \<Rightarrow> string" where
  "marketingUrl e path =
     (let base = strip_trailing_slashes (marketingBaseUrl e)
      in base @ (if prefix ''/'' path then path else ''/'' @ path))"

text \<open>
  One button per hotspot, in list order: its label and the \<^verbatim>\<open>onClick\<close> handler, which
  replaces the selection.
\<close>

record hotspot_button =
  button_label :: string
  onClick :: "Hotspot option \<Rightarrow> Hotspot option"

definition Viewer_buttons :: "hotspot_button list" where
  "Viewer_buttons =
     map (\<lambda>h. \<lparr>button_label = title h, onClick = (\<lambda>selected. Some h)\<rparr>) DEFAULT_HOTSPOTS"

text \<open>Clicking the button at a position; there is nothing to click beyond the list.\<close>

definition Viewer_click :: "nat \<Rightarrow> Hotspot option \<Rightarrow> Hotspot option" where
  "Viewer_click i selected =
     (if i < length Viewer_buttons then onClick (Viewer_buttons ! i) selected else selected)"

text \<open>The details pane: \<open>None\<close> stands for the text \<^verbatim>\<open>Select a hotspot.\<close>\<close>

record details =
  shown_title :: string
  shown_description :: string
  href :: string
  link_label :: string

definition Viewer_details :: "AppEnv \<Rightarrow> Hotspot option \<Rightarrow> details option" where
  "Viewer_details e selected =
     (case selected of
        None \<Rightarrow> None
      | Some h \<Rightarrow>
          Some \<lparr>shown_title = title h,
                shown_description = description h,
                href = marketingUrl e (ctaPath h),
                link_label = ctaLabel h\<rparr>)"

section \<open>Example inputs\<close>

text \<open>Environments used to instantiate the properties below.\<close>

definition ime_required_only :: import_meta_env where
  "ime_required_only =
     [''VITE_ITWIN_CLIENT_ID'' \<mapsto> ''spa-client'',
      ''VITE_ITWIN_REDIRECT_URI'' \<mapsto> ''https://app.example/signin-callback'',
      ''VITE_ITWIN_POST_SIGNOUT_REDIRECT_URI'' \<mapsto> ''https://app.example/'']"

definition ime_with_optional :: import_meta_env where
  "ime_with_optional =
     ime_required_only(''VITE_ITWIN_SCOPE'' \<mapsto> ''itwin-platform imodels:read'',
                       ''VITE_ITWIN_AUTHORITY'' \<mapsto> ''https://qa-ims.bentley.com'')"

definition ime_empty_client_id :: import_meta_env where
  "ime_empty_client_id = ime_required_only(''VITE_ITWIN_CLIENT_ID'' \<mapsto> [])"

definition ime_no_redirect_uri :: import_meta_env where
  "ime_no_redirect_uri = ime_required_only(''VITE_ITWIN_REDIRECT_URI'' := None)"

definition ime_empty_redirect_uri :: import_meta_env where
  "ime_empty_redirect_uri = ime_required_only(''VITE_ITWIN_REDIRECT_URI'' \<mapsto> [])"

definition ime_two_empty :: import_meta_env where
  "ime_two_empty =
     ime_required_only(''VITE_ITWIN_CLIENT_ID'' \<mapsto> [], ''VITE_ITWIN_REDIRECT_URI'' \<mapsto> [])"

text \<open>
  Pages of the chat widget: one with a message typed, and one whose input is white space
  only: a space, a tab, a no-break space (U+00A0) and an ideographic space (U+3000).
\<close>

definition doc_hello :: chat_document where
  "doc_hello =
     \<lparr>inputEl = Some \<lparr>input_value = '' hello  '', focused = False\<rparr>,
      chatboxEl = Some \<lparr>children = [], scrolled_to_bottom = False\<rparr>,
      sendBtn = Some \<lparr>disabled = False, textContent = ''Send''\<rparr>\<rparr>"

definition blank_input :: string where
  "blank_input = [CHR '' '', CHR 0x09, CHR 0xC2, CHR 0xA0, CHR 0xE3, CHR 0x80, CHR 0x80]"

definition doc_blank :: chat_document where
  "doc_blank =
     \<lparr>inputEl = Some \<lparr>input_value = blank_input, focused = True\<rparr>,
      chatboxEl = Some \<lparr>children = [], scrolled_to_bottom = False\<rparr>,
      sendBtn = Some \<lparr>disabled = False, textContent = ''Send''\<rparr>\<rparr>"

text \<open>A configuration whose marketing base URL ends in two slashes.\<close>

definition app_env_slashes :: AppEnv where
  "app_env_slashes =
     \<lparr>itwinClientId = ''spa-client'',
      redirectUri = ''https://app.example/signin-callback'',
      postSignoutRedirectUri = ''https://app.example/'',
      scope = ''itwin-platform'',
      authority = ''https://ims.bentley.com'',
      demoITwinId = None,
      demoIModelId = None,
      marketingBaseUrl = ''https://gem.example/site//''\<rparr>"

section \<open>Properties of the environment configuration\<close>

lemma requireEnv_falsy:
  "falsy (ime k) \<Longrightarrow> requireEnv ime k = Inl (Error (''Missing required env var: '' @ k))"
  by (cases "ime k") (simp_all add: requireEnv_def)

lemma requireEnv_truthy:
  "\<not> falsy (ime k) \<Longrightarrow> \<exists>v. ime k = Some v \<and> v \<noteq> [] \<and> requireEnv ime k = Inr v"
  by (cases "ime k") (simp_all add: requireEnv_def)

lemma find_first:
  "k \<in> set xs \<Longrightarrow> P k \<Longrightarrow> list_all (\<lambda>x. \<not> P x) (takeWhile (\<lambda>x. x \<noteq> k) xs) \<Longrightarrow>
     find P xs = Some k"
  by (induction xs) (auto split: if_splits)

lemma env_first_missing:
  assumes f: "find (\<lambda>k. falsy (ime k)) required_keys = Some k"
  shows "env ime = Inl (Error (''Missing required env var: '' @ k))"
proof -
  consider (a) "falsy (ime ''VITE_ITWIN_CLIENT_ID'')"
    | (b) "\<not> falsy (ime ''VITE_ITWIN_CLIENT_ID'')" "falsy (ime ''VITE_ITWIN_REDIRECT_URI'')"
    | (c) "\<not> falsy (ime ''VITE_ITWIN_CLIENT_ID'')" "\<not> falsy (ime ''VITE_ITWIN_REDIRECT_URI'')"
          "falsy (ime ''VITE_ITWIN_POST_SIGNOUT_REDIRECT_URI'')"
    | (d) "\<not> falsy (ime ''VITE_ITWIN_CLIENT_ID'')" "\<not> falsy (ime ''VITE_ITWIN_REDIRECT_URI'')"
          "\<not> falsy (ime ''VITE_ITWIN_POST_SIGNOUT_REDIRECT_URI'')"
    by blast
  then show ?thesis
  proof cases
    case a
    with f have "k = ''VITE_ITWIN_CLIENT_ID''" by (simp add: required_keys_def)
    with a show ?thesis by (simp add: env_def requireEnv_falsy)
  next
    case b
    with f have k: "k = ''VITE_ITWIN_REDIRECT_URI''" by (simp add: required_keys_def)
    from b(1) obtain v where "requireEnv ime ''VITE_ITWIN_CLIENT_ID'' = Inr v"
      using requireEnv_truthy by blast
    with b(2) k show ?thesis by (simp add: env_def requireEnv_falsy)
  next
    case c
    with f have k: "k = ''VITE_ITWIN_POST_SIGNOUT_REDIRECT_URI''" by (simp add: required_keys_def)
    from c(1) obtain v where v: "requireEnv ime ''VITE_ITWIN_CLIENT_ID'' = Inr v"
      using requireEnv_truthy by blast
    from c(2) obtain w where "requireEnv ime ''VITE_ITWIN_REDIRECT_URI'' = Inr w"
      using requireEnv_truthy by blast
    with v c(3) k show ?thesis by (simp add: env_def requireEnv_falsy)
  next
    case d
    with f show ?thesis by (simp add: required_keys_def)
  qed
qed

lemma env_all_truthy:
  assumes f: "find (\<lambda>k. falsy (ime k)) required_keys = None"
  shows "\<exists>a b c. ime ''VITE_ITWIN_CLIENT_ID'' = Some a \<and> a \<noteq> [] \<and>
           ime ''VITE_ITWIN_REDIRECT_URI'' = Some b \<and> b \<noteq> [] \<and>
           ime ''VITE_ITWIN_POST_SIGNOUT_REDIRECT_URI'' = Some c \<and> c \<noteq> [] \<and>
           env ime =
             Inr \<lparr>itwinClientId = a, redirectUri = b, postSignoutRedirectUri = c,
                  scope = nullish (ime ''VITE_ITWIN_SCOPE'') ''itwin-platform'',
                  authority = nullish (ime ''VITE_ITWIN_AUTHORITY'') ''https://ims.bentley.com'',
                  demoITwinId = ime ''VITE_DEMO_ITWIN_ID'',
                  demoIModelId = ime ''VITE_DEMO_IMODEL_ID'',
                  marketingBaseUrl = nullish (ime ''VITE_MARKETING_BASE_URL'') ''/''\<rparr>"
proof -
  from f have t: "\<not> falsy (ime ''VITE_ITWIN_CLIENT_ID'')"
      "\<not> falsy (ime ''VITE_ITWIN_REDIRECT_URI'')"
      "\<not> falsy (ime ''VITE_ITWIN_POST_SIGNOUT_REDIRECT_URI'')"
    by (simp_all add: required_keys_def split: if_splits)
  from t(1) obtain a where a: "ime ''VITE_ITWIN_CLIENT_ID'' = Some a" "a \<noteq> []"
      "requireEnv ime ''VITE_ITWIN_CLIENT_ID'' = Inr a"
    using requireEnv_truthy by blast
  from t(2) obtain b where b: "ime ''VITE_ITWIN_REDIRECT_URI'' = Some b" "b \<noteq> []"
      "requireEnv ime ''VITE_ITWIN_REDIRECT_URI'' = Inr b"
    using requireEnv_truthy by blast
  from t(3) obtain c where c: "ime ''VITE_ITWIN_POST_SIGNOUT_REDIRECT_URI'' = Some c" "c \<noteq> []"
      "requireEnv ime ''VITE_ITWIN_POST_SIGNOUT_REDIRECT_URI'' = Inr c"
    using requireEnv_truthy by blast
  from a b c show ?thesis by (simp add: env_def)
qed

lemma env_empty_as_absent:
  assumes "k \<in> set required_keys" and "falsy (ime k)"
  shows "env (ime(k := None)) = env ime"
proof -
  have r: "requireEnv (ime(k := None)) n = requireEnv ime n" for n
    using assms(2) by (cases "ime k") (auto simp: requireEnv_def)
  from assms(1) have "k \<noteq> ''VITE_ITWIN_SCOPE''" "k \<noteq> ''VITE_ITWIN_AUTHORITY''"
      "k \<noteq> ''VITE_DEMO_ITWIN_ID''" "k \<noteq> ''VITE_DEMO_IMODEL_ID''"
      "k \<noteq> ''VITE_MARKETING_BASE_URL''"
    by (auto simp: required_keys_def)
  then show ?thesis by (simp add: env_def r split: sum.splits)
qed

text \<open>
  Claim C1, as amended. Construction of the configuration succeeds exactly when each of
  the three required keys (client ID, redirect URI, post-signout redirect URI) has a
  non-empty value, and then the configuration carries those values. Otherwise it throws
  an error with message \<^verbatim>\<open>Missing required env var: <key>\<close> where the key named is the
  first required key, in the order of the calls, whose value is absent or empty. So a
  required key that is absent is the one named whenever every required key before it
  has a non-empty value.
\<close>

theorem env_required_keys:
  "(find (\<lambda>k. falsy (ime k)) required_keys = Some k \<longrightarrow>
      env ime = Inl (Error (''Missing required env var: '' @ k))) \<and>
   (k \<in> set required_keys \<and> ime k = None \<and>
      list_all (\<lambda>k'. \<not> falsy (ime k')) (takeWhile (\<lambda>k'. k' \<noteq> k) required_keys) \<longrightarrow>
      env ime = Inl (Error (''Missing required env var: '' @ k))) \<and>
   (list_all (\<lambda>k. \<not> falsy (ime k)) required_keys \<longrightarrow>
      (\<exists>cfg. env ime = Inr cfg \<and>
         ime ''VITE_ITWIN_CLIENT_ID'' = Some (itwinClientId cfg) \<and>
         ime ''VITE_ITWIN_REDIRECT_URI'' = Some (redirectUri cfg) \<and>
         ime ''VITE_ITWIN_POST_SIGNOUT_REDIRECT_URI'' = Some (postSignoutRedirectUri cfg))) \<and>
   ((\<exists>cfg. env ime = Inr cfg) \<longrightarrow> list_all (\<lambda>k. \<not> falsy (ime k)) required_keys)"
proof (intro conjI impI)
  assume "find (\<lambda>k. falsy (ime k)) required_keys = Some k"
  then show "env ime = Inl (Error (''Missing required env var: '' @ k))"
    by (rule env_first_missing)
next
  assume h: "k \<in> set required_keys \<and> ime k = None \<and>
      list_all (\<lambda>k'. \<not> falsy (ime k')) (takeWhile (\<lambda>k'. k' \<noteq> k) required_keys)"
  then have "falsy (ime k)" by simp
  with h have "find (\<lambda>k. falsy (ime k)) required_keys = Some k"
    by (intro find_first) simp_all
  then show "env ime = Inl (Error (''Missing required env var: '' @ k))"
    by (rule env_first_missing)
next
  assume "list_all (\<lambda>k. \<not> falsy (ime k)) required_keys"
  then have "find (\<lambda>k. falsy (ime k)) required_keys = None"
    by (simp add: required_keys_def)
  from env_all_truthy [OF this]
  show "\<exists>cfg. env ime = Inr cfg \<and>
         ime ''VITE_ITWIN_CLIENT_ID'' = Some (itwinClientId cfg) \<and>
         ime ''VITE_ITWIN_REDIRECT_URI'' = Some (redirectUri cfg) \<and>
         ime ''VITE_ITWIN_POST_SIGNOUT_REDIRECT_URI'' = Some (postSignoutRedirectUri cfg)"
    by auto
next
  assume s: "\<exists>cfg. env ime = Inr cfg"
  show "list_all (\<lambda>k. \<not> falsy (ime k)) required_keys"
  proof (cases "find (\<lambda>k. falsy (ime k)) required_keys")
    case None
    then show ?thesis by (simp add: required_keys_def split: if_splits)
  next
    case (Some k')
    from env_first_missing [OF this] s show ?thesis by auto
  qed
qed

theorem env_required_keys_witness:
  "env ime_no_redirect_uri = Inl (Error ''Missing required env var: VITE_ITWIN_REDIRECT_URI'') \<and>
   (\<exists>cfg. env ime_required_only = Inr cfg \<and> itwinClientId cfg = ''spa-client'' \<and>
      redirectUri cfg = ''https://app.example/signin-callback'' \<and>
      postSignoutRedirectUri cfg = ''https://app.example/'') \<and>
   list_all (\<lambda>k. \<not> falsy (ime_required_only k)) required_keys"
proof -
  note missing = env_required_keys [of ime_no_redirect_uri "''VITE_ITWIN_REDIRECT_URI''"]
  note present = env_required_keys [of ime_required_only "[]"]
  have m: "''Missing required env var: '' @ ''VITE_ITWIN_REDIRECT_URI'' =
      ''Missing required env var: VITE_ITWIN_REDIRECT_URI''"
    by simp
  have a: "find (\<lambda>k. falsy (ime_no_redirect_uri k)) required_keys = Some ''VITE_ITWIN_REDIRECT_URI''"
    by (simp add: required_keys_def ime_no_redirect_uri_def ime_required_only_def)
  have a': "''VITE_ITWIN_REDIRECT_URI'' \<in> set required_keys \<and>
      ime_no_redirect_uri ''VITE_ITWIN_REDIRECT_URI'' = None \<and>
      list_all (\<lambda>k'. \<not> falsy (ime_no_redirect_uri k'))
        (takeWhile (\<lambda>k'. k' \<noteq> ''VITE_ITWIN_REDIRECT_URI'') required_keys)"
    by (simp add: required_keys_def ime_no_redirect_uri_def ime_required_only_def)
  have b: "list_all (\<lambda>k. \<not> falsy (ime_required_only k)) required_keys"
    by (simp add: required_keys_def ime_required_only_def)
  from missing a have 1: "env ime_no_redirect_uri =
      Inl (Error ''Missing required env var: VITE_ITWIN_REDIRECT_URI'')"
    unfolding m by blast
  from missing a' have "env ime_no_redirect_uri =
      Inl (Error ''Missing required env var: VITE_ITWIN_REDIRECT_URI'')"
    unfolding m by blast
  from present b
  obtain cfg where cfg: "env ime_required_only = Inr cfg"
      "ime_required_only ''VITE_ITWIN_CLIENT_ID'' = Some (itwinClientId cfg)"
      "ime_required_only ''VITE_ITWIN_REDIRECT_URI'' = Some (redirectUri cfg)"
      "ime_required_only ''VITE_ITWIN_POST_SIGNOUT_REDIRECT_URI'' = Some (postSignoutRedirectUri cfg)"
    by blast
  then have 2: "\<exists>cfg. env ime_required_only = Inr cfg \<and> itwinClientId cfg = ''spa-client'' \<and>
      redirectUri cfg = ''https://app.example/signin-callback'' \<and>
      postSignoutRedirectUri cfg = ''https://app.example/''"
    by (auto simp: ime_required_only_def)
  from cfg(1) have "\<exists>cfg. env ime_required_only = Inr cfg" ..
  with present have 3: "list_all (\<lambda>k. \<not> falsy (ime_required_only k)) required_keys"
    by blast
  from 1 2 3 show ?thesis by blast
qed

text \<open>
  The claim as first stated fails twice. With every required key set and the client ID
  set to the empty string, construction throws although all required keys are present.
  With no variable set at all, the redirect URI is absent but the message names the
  client ID, the first key checked.
\<close>

theorem env_required_keys_counterexample:
  "ime_empty_client_id ''VITE_ITWIN_CLIENT_ID'' \<noteq> None \<and>
   ime_empty_client_id ''VITE_ITWIN_REDIRECT_URI'' \<noteq> None \<and>
   ime_empty_client_id ''VITE_ITWIN_POST_SIGNOUT_REDIRECT_URI'' \<noteq> None \<and>
   env ime_empty_client_id = Inl (Error ''Missing required env var: VITE_ITWIN_CLIENT_ID'') \<and>
   (Map.empty :: import_meta_env) ''VITE_ITWIN_REDIRECT_URI'' = None \<and>
   env Map.empty = Inl (Error ''Missing required env var: VITE_ITWIN_CLIENT_ID'') \<and>
   env Map.empty \<noteq> Inl (Error ''Missing required env var: VITE_ITWIN_REDIRECT_URI'')"
  by (simp add: ime_empty_client_id_def ime_required_only_def env_def requireEnv_def)

text \<open>
  Claim C8. In a constructed configuration the scope is \<^verbatim>\<open>itwin-platform\<close> and the
  authority is \<^verbatim>\<open>https://ims.bentley.com\<close> when the respective optional variable is absent,
  and is the variable's value, unchanged, when it is present.
\<close>

theorem env_optional_defaults:
  "env ime = Inr cfg \<Longrightarrow>
     (ime ''VITE_ITWIN_SCOPE'' = None \<longrightarrow> scope cfg = ''itwin-platform'') \<and>
     (ime ''VITE_ITWIN_AUTHORITY'' = None \<longrightarrow> authority cfg = ''https://ims.bentley.com'') \<and>
     (\<forall>s. ime ''VITE_ITWIN_SCOPE'' = Some s \<longrightarrow> scope cfg = s) \<and>
     (\<forall>a. ime ''VITE_ITWIN_AUTHORITY'' = Some a \<longrightarrow> authority cfg = a)"
  by (auto simp: env_def split: sum.splits)

theorem env_optional_defaults_witness:
  "(\<exists>cfg. env ime_required_only = Inr cfg \<and> scope cfg = ''itwin-platform'' \<and>
      authority cfg = ''https://ims.bentley.com'') \<and>
   (\<exists>cfg. env ime_with_optional = Inr cfg \<and> scope cfg = ''itwin-platform imodels:read'' \<and>
      authority cfg = ''https://qa-ims.bentley.com'')"
proof -
  obtain c1 where c1: "env ime_required_only = Inr c1"
    by (simp add: env_def requireEnv_def ime_required_only_def ime_with_optional_def)
  obtain c2 where c2: "env ime_with_optional = Inr c2"
    by (simp add: env_def requireEnv_def ime_required_only_def ime_with_optional_def)
  from env_optional_defaults [OF c1]
  have "scope c1 = ''itwin-platform'' \<and> authority c1 = ''https://ims.bentley.com''"
    by (simp add: ime_required_only_def ime_with_optional_def)
  moreover from env_optional_defaults [OF c2]
  have "scope c2 = ''itwin-platform imodels:read'' \<and> authority c2 = ''https://qa-ims.bentley.com''"
    by (simp add: ime_required_only_def ime_with_optional_def)
  ultimately show ?thesis using c1 c2 by blast
qed

text \<open>
  Claim C9, as amended. The required-env check treats an empty string as an absent
  value: for a required key whose value is the empty string, \<^verbatim>\<open>requireEnv\<close> throws the
  error naming that key, exactly as it does once the key is removed, and construction of
  the configuration gives the same result as with the key removed; it throws a
  \<^verbatim>\<open>Missing required env var\<close> error, which names the first required key whose value is
  absent or empty. That is the key in question whenever every required key before it
  has a non-empty value.
\<close>

theorem requireEnv_empty_string:
  "k \<in> set required_keys \<Longrightarrow> ime k = Some [] \<Longrightarrow>
     requireEnv ime k = Inl (Error (''Missing required env var: '' @ k)) \<and>
     requireEnv (ime(k := None)) k = Inl (Error (''Missing required env var: '' @ k)) \<and>
     env ime = env (ime(k := None)) \<and>
     (\<exists>k'. find (\<lambda>k. falsy (ime k)) required_keys = Some k' \<and>
        env ime = Inl (Error (''Missing required env var: '' @ k'))) \<and>
     (list_all (\<lambda>k'. \<not> falsy (ime k')) (takeWhile (\<lambda>k'. k' \<noteq> k) required_keys) \<longrightarrow>
        env ime = Inl (Error (''Missing required env var: '' @ k)))"
proof (intro conjI impI)
  assume k: "k \<in> set required_keys" and e: "ime k = Some []"
  then have f: "falsy (ime k)" by simp
  show "requireEnv ime k = Inl (Error (''Missing required env var: '' @ k))"
    using f by (rule requireEnv_falsy)
  show "requireEnv (ime(k := None)) k = Inl (Error (''Missing required env var: '' @ k))"
    by (rule requireEnv_falsy) simp
  show "env ime = env (ime(k := None))"
    using env_empty_as_absent [where k = k and ime = ime, OF k f] by simp
  from k f have "find (\<lambda>k. falsy (ime k)) required_keys \<noteq> None"
    by (auto simp: find_None_iff)
  then obtain k' where k': "find (\<lambda>k. falsy (ime k)) required_keys = Some k'"
    by blast
  with env_first_missing [OF k']
  show "\<exists>k'. find (\<lambda>k. falsy (ime k)) required_keys = Some k' \<and>
        env ime = Inl (Error (''Missing required env var: '' @ k'))"
    by blast
  assume "list_all (\<lambda>k'. \<not> falsy (ime k')) (takeWhile (\<lambda>k'. k' \<noteq> k) required_keys)"
  with k f have "find (\<lambda>k. falsy (ime k)) required_keys = Some k"
    by (intro find_first) simp_all
  then show "env ime = Inl (Error (''Missing required env var: '' @ k))"
    by (rule env_first_missing)
qed

theorem requireEnv_empty_string_witness:
  "ime_empty_redirect_uri ''VITE_ITWIN_REDIRECT_URI'' = Some [] \<and>
   requireEnv ime_empty_redirect_uri ''VITE_ITWIN_REDIRECT_URI'' =
     Inl (Error ''Missing required env var: VITE_ITWIN_REDIRECT_URI'') \<and>
   env ime_empty_redirect_uri = env ime_no_redirect_uri \<and>
   env ime_empty_redirect_uri = Inl (Error ''Missing required env var: VITE_ITWIN_REDIRECT_URI'')"
proof -
  have k: "''VITE_ITWIN_REDIRECT_URI'' \<in> set required_keys"
    by (simp add: required_keys_def)
  have e: "ime_empty_redirect_uri ''VITE_ITWIN_REDIRECT_URI'' = Some []"
    by (simp add: ime_empty_redirect_uri_def ime_no_redirect_uri_def ime_required_only_def)
  have b: "list_all (\<lambda>k'. \<not> falsy (ime_empty_redirect_uri k'))
             (takeWhile (\<lambda>k'. k' \<noteq> ''VITE_ITWIN_REDIRECT_URI'') required_keys)"
    by (simp add: required_keys_def ime_empty_redirect_uri_def ime_no_redirect_uri_def ime_required_only_def)
  have u: "ime_empty_redirect_uri(''VITE_ITWIN_REDIRECT_URI'' := None) = ime_no_redirect_uri"
    by (simp add: ime_empty_redirect_uri_def ime_no_redirect_uri_def ime_required_only_def)
  have m: "''Missing required env var: '' @ ''VITE_ITWIN_REDIRECT_URI'' =
      ''Missing required env var: VITE_ITWIN_REDIRECT_URI''"
    by simp
  note t = requireEnv_empty_string
             [where k = "''VITE_ITWIN_REDIRECT_URI''" and ime = ime_empty_redirect_uri,
              OF k e, unfolded m]
  from t have 1: "requireEnv ime_empty_redirect_uri ''VITE_ITWIN_REDIRECT_URI'' =
      Inl (Error ''Missing required env var: VITE_ITWIN_REDIRECT_URI'')"
    by blast
  from t have 2: "env ime_empty_redirect_uri = env ime_no_redirect_uri"
    unfolding u by blast
  from t b have 3: "env ime_empty_redirect_uri =
      Inl (Error ''Missing required env var: VITE_ITWIN_REDIRECT_URI'')"
    by blast
  from e 1 2 3 show ?thesis by blast
qed

text \<open>
  The claim as first stated fails when an earlier required key is missing as well: with
  the client ID and the redirect URI both set to the empty string, the error names the
  client ID and not the redirect URI.
\<close>

theorem requireEnv_empty_string_counterexample:
  "ime_two_empty ''VITE_ITWIN_REDIRECT_URI'' = Some [] \<and>
   env ime_two_empty = Inl (Error ''Missing required env var: VITE_ITWIN_CLIENT_ID'') \<and>
   env ime_two_empty \<noteq> Inl (Error ''Missing required env var: VITE_ITWIN_REDIRECT_URI'')"
  by (simp add: ime_two_empty_def ime_required_only_def env_def requireEnv_def)

section \<open>Properties of the chat widget\<close>

subsection \<open>Escaping\<close>

lemma replace_all_Nil: "replace_all c r [] = []"
  by (simp add: replace_all_def)

lemma replace_all_Cons:
  "replace_all c r (x # xs) = (if x = c then r else [x]) @ replace_all c r xs"
  by (simp add: replace_all_def)

lemma replace_all_append:
  "replace_all c r (xs @ ys) = replace_all c r xs @ replace_all c r ys"
  by (simp add: replace_all_def)

lemma escapeHtml_Nil: "escapeHtml [] = []"
  by (simp add: escapeHtml_def replace_all_Nil)

lemma escapeHtml_Cons: "escapeHtml (x # xs) = escape_char x @ escapeHtml xs"
  by (simp add: escapeHtml_def escape_char_def replace_all_Cons replace_all_append replace_all_Nil)

lemma escapeHtml_append: "escapeHtml (xs @ ys) = escapeHtml xs @ escapeHtml ys"
  by (simp add: escapeHtml_def replace_all_append)

lemma escapeHtml_eq_spec: "escapeHtml str = escapeHtml_spec str"
  by (induction str) (simp_all add: escapeHtml_Nil escapeHtml_Cons escapeHtml_spec_def)

lemma escape_char_no_angle:
  "CHR ''<'' \<notin> set (escape_char c)" "CHR ''>'' \<notin> set (escape_char c)"
  by (auto simp: escape_char_def)

lemma escapeHtml_no_angle:
  "CHR ''<'' \<notin> set (escapeHtml str)" "CHR ''>'' \<notin> set (escapeHtml str)"
  by (induction str) (simp_all add: escapeHtml_Nil escapeHtml_Cons escape_char_no_angle)

lemma html_text_escape_char:
  "html_text False (escape_char c @ rest) = c # html_text False rest"
  by (simp add: escape_char_def)

lemma html_text_escapeHtml: "html_text False (escapeHtml str) = str"
  by (induction str) (simp_all add: escapeHtml_Nil escapeHtml_Cons html_text_escape_char)

text \<open>
  Claim C6. For every input string, \<^verbatim>\<open>escapeHtml\<close> (which replaces the ampersands first)
  gives the string in which every \<^verbatim>\<open>&\<close> is replaced by \<^verbatim>\<open>&amp;\<close>, every \<^verbatim>\<open><\<close> by \<^verbatim>\<open>&lt;\<close> and
  every \<^verbatim>\<open>>\<close> by \<^verbatim>\<open>&gt;\<close>; the result contains no \<^verbatim>\<open><\<close> and no \<^verbatim>\<open>>\<close>; a \<^verbatim>\<open><script>\<close> inside
  the input comes out as \<^verbatim>\<open>&lt;script&gt;\<close>, so that the browser shows the input literally;
  and \<^verbatim>\<open>appendMessage\<close> writes the escaped text into the element it appends.
\<close>

theorem escapeHtml_escapes:
  "escapeHtml str = escapeHtml_spec str \<and>
   CHR ''<'' \<notin> set (escapeHtml str) \<and>
   CHR ''>'' \<notin> set (escapeHtml str) \<and>
   escapeHtml (pre @ ''<script>'' @ post) = escapeHtml pre @ ''&lt;script&gt;'' @ escapeHtml post \<and>
   html_text False (escapeHtml str) = str \<and>
   appendMessage sender (Some (JString str)) type (doc\<lparr>chatboxEl := Some cb\<rparr>) =
     Inr (doc\<lparr>chatboxEl :=
            Some (cb\<lparr>children := children cb @
                        [\<lparr>classList = [''message'', type],
                          innerHTML = ''<b>'' @ sender @ '':</b> '' @ escapeHtml str\<rparr>],
                      scrolled_to_bottom := True\<rparr>)\<rparr>)"
proof (intro conjI)
  show "escapeHtml str = escapeHtml_spec str"
    by (rule escapeHtml_eq_spec)
  show "CHR ''<'' \<notin> set (escapeHtml str)" and "CHR ''>'' \<notin> set (escapeHtml str)"
    by (rule escapeHtml_no_angle)+
  have "escapeHtml ''<script>'' = ''&lt;script&gt;''"
    by (simp add: escapeHtml_Nil escapeHtml_Cons escape_char_def)
  then show "escapeHtml (pre @ ''<script>'' @ post) =
      escapeHtml pre @ ''&lt;script&gt;'' @ escapeHtml post"
    by (simp only: escapeHtml_append)
  show "html_text False (escapeHtml str) = str"
    by (rule html_text_escapeHtml)
  show "appendMessage sender (Some (JString str)) type (doc\<lparr>chatboxEl := Some cb\<rparr>) =
     Inr (doc\<lparr>chatboxEl :=
            Some (cb\<lparr>children := children cb @
                        [\<lparr>classList = [''message'', type],
                          innerHTML = ''<b>'' @ sender @ '':</b> '' @ escapeHtml str\<rparr>],
                      scrolled_to_bottom := True\<rparr>)\<rparr>)"
    by (simp add: appendMessage_def)
qed

theorem escapeHtml_escapes_witness:
  "escapeHtml ''<script>alert(1 & 2)</script>'' = ''&lt;script&gt;alert(1 &amp; 2)&lt;/script&gt;''"
  using escapeHtml_escapes [of "''<script>alert(1 & 2)</script>''"]
  by (simp add: escapeHtml_spec_def escape_char_def)

subsection \<open>Sending a message\<close>

lemma strip_leading_white_space:
  "w \<in> set white_space \<Longrightarrow> strip_leading white_space (w @ rest) = strip_leading white_space rest"
  by (auto simp: white_space_def leading_def)

lemma strip_leading_concat:
  "list_all (\<lambda>w. w \<in> set white_space) ws \<Longrightarrow> strip_leading white_space (concat ws) = []"
  by (induction ws) (simp_all add: strip_leading_white_space)

lemma trim_white_space:
  "list_all (\<lambda>w. w \<in> set white_space) ws \<Longrightarrow> trim (concat ws) = []"
  by (simp add: trim_def trimStart_def trimEnd_def strip_leading_concat)

lemma escapeHtml_fallback:
  "escapeHtml ''Sorry, something went wrong while contacting the assistant.'' =
     ''Sorry, something went wrong while contacting the assistant.''"
  by (simp add: escapeHtml_Nil escapeHtml_Cons escape_char_def)

lemma sendMessage_reply:
  assumes "inputEl doc = Some inp" and "chatboxEl doc = Some cb" and "sendBtn doc = Some btn"
    and "trim (input_value inp) \<noteq> []"
  shows "sendMessage (Resolved (Resolved (JObject [(''reply'', JString answer)]))) doc =
     (doc\<lparr>inputEl := Some (inp\<lparr>input_value := [], focused := True\<rparr>),
          chatboxEl :=
            Some (cb\<lparr>children := children cb @
                        [\<lparr>classList = [''message'', ''user''],
                          innerHTML = ''<b>You:</b> '' @ escapeHtml (trim (input_value inp))\<rparr>,
                         \<lparr>classList = [''message'', ''ai''],
                          innerHTML = ''<b>AI:</b> '' @ escapeHtml answer\<rparr>],
                      scrolled_to_bottom := True\<rparr>),
          sendBtn := Some (btn\<lparr>disabled := False, textContent := ''Send''\<rparr>)\<rparr>,
      [\<lparr>url = ''/chat'', http_method = ''POST'',
        headers = [(''Content-Type'', ''application/json'')],
        body = JObject [(''message'', JString (trim (input_value inp)))]\<rparr>],
      Resolved ())"
  using assms
  by (simp add: sendMessage_def appendMessage_def try_block_def finally_block_def Let_def)

lemma sendMessage_failed:
  assumes "inputEl doc = Some inp" and "chatboxEl doc = Some cb" and "sendBtn doc = Some btn"
    and "trim (input_value inp) \<noteq> []"
    and "try_block net
           (doc\<lparr>chatboxEl :=
                  Some (cb\<lparr>children := children cb @
                        [\<lparr>classList = [''message'', ''user''],
                          innerHTML = ''<b>You:</b> '' @ escapeHtml (trim (input_value inp))\<rparr>],
                      scrolled_to_bottom := True\<rparr>),
                inputEl := Some (inp\<lparr>input_value := [], focused := True\<rparr>),
                sendBtn := Some (btn\<lparr>disabled := True, textContent := ''Sending...''\<rparr>)\<rparr>) = Inl err"
  shows "sendMessage net doc =
     (doc\<lparr>inputEl := Some (inp\<lparr>input_value := [], focused := True\<rparr>),
          chatboxEl :=
            Some (cb\<lparr>children := children cb @
                        [\<lparr>classList = [''message'', ''user''],
                          innerHTML = ''<b>You:</b> '' @ escapeHtml (trim (input_value inp))\<rparr>,
                         \<lparr>classList = [''message'', ''ai''],
                          innerHTML =
                            ''<b>AI:</b> Sorry, something went wrong while contacting the assistant.''\<rparr>],
                      scrolled_to_bottom := True\<rparr>),
          sendBtn := Some (btn\<lparr>disabled := False, textContent := ''Send''\<rparr>)\<rparr>,
      [\<lparr>url = ''/chat'', http_method = ''POST'',
        headers = [(''Content-Type'', ''application/json'')],
        body = JObject [(''message'', JString (trim (input_value inp)))]\<rparr>],
      Resolved ())"
  using assms
  by (simp add: sendMessage_def appendMessage_def catch_block_def finally_block_def Let_def
      escapeHtml_fallback)

text \<open>
  Claim C4. Sending the input \<^verbatim>\<open>hello\<close> when the fetch resolves with the JSON body
  \<^verbatim>\<open>{reply: "hi"}\<close> appends exactly two messages to the chat box: first a user message
  shown as \<^verbatim>\<open>You: hello\<close>, then an assistant message shown as \<^verbatim>\<open>AI: hi\<close>.
\<close>

theorem sendMessage_hello:
  assumes "inputEl doc = Some inp" and "chatboxEl doc = Some cb" and "sendBtn doc = Some btn"
    and "trim (input_value inp) = ''hello''"
  shows "sendMessage (Resolved (Resolved (JObject [(''reply'', JString ''hi'')]))) doc =
     (doc\<lparr>inputEl := Some (inp\<lparr>input_value := [], focused := True\<rparr>),
          chatboxEl :=
            Some (cb\<lparr>children := children cb @
                        [\<lparr>classList = [''message'', ''user''], innerHTML = ''<b>You:</b> hello''\<rparr>,
                         \<lparr>classList = [''message'', ''ai''], innerHTML = ''<b>AI:</b> hi''\<rparr>],
                      scrolled_to_bottom := True\<rparr>),
          sendBtn := Some (btn\<lparr>disabled := False, textContent := ''Send''\<rparr>)\<rparr>,
      [\<lparr>url = ''/chat'', http_method = ''POST'',
        headers = [(''Content-Type'', ''application/json'')],
        body = JObject [(''message'', JString ''hello'')]\<rparr>],
      Resolved ()) \<and>
    html_text False ''<b>You:</b> hello'' = ''You: hello'' \<and>
    html_text False ''<b>AI:</b> hi'' = ''AI: hi''"
proof -
  from assms(4) have ne: "trim (input_value inp) \<noteq> []" by simp
  have e: "escapeHtml ''hello'' = ''hello''" "escapeHtml ''hi'' = ''hi''"
    by (simp_all add: escapeHtml_Nil escapeHtml_Cons escape_char_def)
  from sendMessage_reply [OF assms(1-3) ne, of "''hi''"] assms(4) e show ?thesis
    by simp
qed

theorem sendMessage_hello_witness:
  "sendMessage (Resolved (Resolved (JObject [(''reply'', JString ''hi'')]))) doc_hello =
     (\<lparr>inputEl = Some \<lparr>input_value = [], focused = True\<rparr>,
       chatboxEl =
         Some \<lparr>children =
                 [\<lparr>classList = [''message'', ''user''], innerHTML = ''<b>You:</b> hello''\<rparr>,
                  \<lparr>classList = [''message'', ''ai''], innerHTML = ''<b>AI:</b> hi''\<rparr>],
               scrolled_to_bottom = True\<rparr>,
       sendBtn = Some \<lparr>disabled = False, textContent = ''Send''\<rparr>\<rparr>,
      [\<lparr>url = ''/chat'', http_method = ''POST'',
        headers = [(''Content-Type'', ''application/json'')],
        body = JObject [(''message'', JString ''hello'')]\<rparr>],
      Resolved ())"
proof -
  have t: "trim '' hello  '' = ''hello''"
    by (simp add: trim_def trimStart_def trimEnd_def white_space_def leading_def)
  have "inputEl doc_hello = Some \<lparr>input_value = '' hello  '', focused = False\<rparr>"
    and "chatboxEl doc_hello = Some \<lparr>children = [], scrolled_to_bottom = False\<rparr>"
    and "sendBtn doc_hello = Some \<lparr>disabled = False, textContent = ''Send''\<rparr>"
    and "trim (input_value \<lparr>input_value = '' hello  '', focused = False\<rparr>) = ''hello''"
    by (simp_all add: doc_hello_def t)
  from sendMessage_hello [OF this] show ?thesis
    by (simp add: doc_hello_def)
qed

text \<open>
  Claim C5. When the fetch rejects, or the parse of the response body rejects, the
  assistant message appended after the user's message has the text
  \<^verbatim>\<open>Sorry, something went wrong while contacting the assistant.\<close>, and when the call has
  completed the send button is enabled and its label is \<^verbatim>\<open>Send\<close>.
\<close>

theorem sendMessage_rejected:
  assumes "inputEl doc = Some inp" and "chatboxEl doc = Some cb" and "sendBtn doc = Some btn"
    and "trim (input_value inp) \<noteq> []"
    and "net = Rejected e \<or> net = Resolved (Rejected e)"
  shows "sendMessage net doc =
     (doc\<lparr>inputEl := Some (inp\<lparr>input_value := [], focused := True\<rparr>),
          chatboxEl :=
            Some (cb\<lparr>children := children cb @
                        [\<lparr>classList = [''message'', ''user''],
                          innerHTML = ''<b>You:</b> '' @ escapeHtml (trim (input_value inp))\<rparr>,
                         \<lparr>classList = [''message'', ''ai''],
                          innerHTML =
                            ''<b>AI:</b> Sorry, something went wrong while contacting the assistant.''\<rparr>],
                      scrolled_to_bottom := True\<rparr>),
          sendBtn := Some (btn\<lparr>disabled := False, textContent := ''Send''\<rparr>)\<rparr>,
      [\<lparr>url = ''/chat'', http_method = ''POST'',
        headers = [(''Content-Type'', ''application/json'')],
        body = JObject [(''message'', JString (trim (input_value inp)))]\<rparr>],
      Resolved ()) \<and>
    html_text False ''<b>AI:</b> Sorry, something went wrong while contacting the assistant.'' =
      ''AI: Sorry, something went wrong while contacting the assistant.''"
proof -
  from assms(5) have "try_block net d = Inl e" for d
    by (auto simp: try_block_def)
  from sendMessage_failed [OF assms(1-4) this] show ?thesis
    by simp
qed

theorem sendMessage_rejected_witness:
  "sendMessage (Rejected (TypeError ''Failed to fetch'')) doc_hello =
     (\<lparr>inputEl = Some \<lparr>input_value = [], focused = True\<rparr>,
       chatboxEl =
         Some \<lparr>children =
                 [\<lparr>classList = [''message'', ''user''], innerHTML = ''<b>You:</b> hello''\<rparr>,
                  \<lparr>classList = [''message'', ''ai''],
                   innerHTML =
                     ''<b>AI:</b> Sorry, something went wrong while contacting the assistant.''\<rparr>],
               scrolled_to_bottom = True\<rparr>,
       sendBtn = Some \<lparr>disabled = False, textContent = ''Send''\<rparr>\<rparr>,
      [\<lparr>url = ''/chat'', http_method = ''POST'',
        headers = [(''Content-Type'', ''application/json'')],
        body = JObject [(''message'', JString ''hello'')]\<rparr>],
      Resolved ()) \<and>
   sendMessage (Resolved (Rejected (Error ''Unexpected token''))) doc_hello =
     sendMessage (Rejected (TypeError ''Failed to fetch'')) doc_hello"
proof -
  have t: "trim '' hello  '' = ''hello''"
    by (simp add: trim_def trimStart_def trimEnd_def white_space_def leading_def)
  have e: "escapeHtml ''hello'' = ''hello''"
    by (simp add: escapeHtml_Nil escapeHtml_Cons escape_char_def)
  have d: "inputEl doc_hello = Some \<lparr>input_value = '' hello  '', focused = False\<rparr>"
    "chatboxEl doc_hello = Some \<lparr>children = [], scrolled_to_bottom = False\<rparr>"
    "sendBtn doc_hello = Some \<lparr>disabled = False, textContent = ''Send''\<rparr>"
    "trim (input_value \<lparr>input_value = '' hello  '', focused = False\<rparr>) \<noteq> []"
    by (simp_all add: doc_hello_def t)
  have 1: "Rejected (TypeError ''Failed to fetch'') = Rejected (TypeError ''Failed to fetch'') \<or>
      Rejected (TypeError ''Failed to fetch'') = Resolved (Rejected (TypeError ''Failed to fetch''))"
    by simp
  have 2: "Resolved (Rejected (Error ''Unexpected token'')) = Rejected (Error ''Unexpected token'') \<or>
      Resolved (Rejected (Error ''Unexpected token'')) = Resolved (Rejected (Error ''Unexpected token''))"
    by simp
  from sendMessage_rejected [OF d 1] sendMessage_rejected [OF d 2] show ?thesis
    by (simp add: doc_hello_def t e)
qed

text \<open>
  Claim C10. When the trimmed input is empty, which it is when the input is empty or
  consists of white space only, \<^verbatim>\<open>sendMessage\<close> does nothing: the page is unchanged, so no
  message is appended, the input is not cleared and the button keeps its state and
  label, and no fetch is issued.
\<close>

theorem sendMessage_blank:
  assumes "inputEl doc = Some inp"
    and "trim (input_value inp) = [] \<or>
         list_all (\<lambda>w. w \<in> set white_space) ws \<and> input_value inp = concat ws"
  shows "sendMessage net doc = (doc, [], Resolved ())"
proof -
  from assms(2) have "trim (input_value inp) = []"
    by (auto simp: trim_white_space)
  with assms(1) show ?thesis
    by (simp add: sendMessage_def split: option.splits)
qed

theorem sendMessage_blank_witness:
  "trim blank_input = [] \<and>
   blank_input = concat [[CHR '' ''], [CHR 0x09], [CHR 0xC2, CHR 0xA0], [CHR 0xE3, CHR 0x80, CHR 0x80]] \<and>
   sendMessage (Resolved (Resolved (JObject [(''reply'', JString ''hi'')]))) doc_blank =
     (doc_blank, [], Resolved ()) \<and>
   sendMessage (Rejected (TypeError ''Failed to fetch''))
     (doc_blank\<lparr>inputEl := Some \<lparr>input_value = [], focused = False\<rparr>\<rparr>) =
     (doc_blank\<lparr>inputEl := Some \<lparr>input_value = [], focused = False\<rparr>\<rparr>, [], Resolved ())"
proof -
  have t: "trim blank_input = []"
    by (simp add: blank_input_def trim_def trimStart_def trimEnd_def white_space_def leading_def)
  have c: "blank_input =
      concat [[CHR '' ''], [CHR 0x09], [CHR 0xC2, CHR 0xA0], [CHR 0xE3, CHR 0x80, CHR 0x80]]"
    by (simp add: blank_input_def)
  have w: "list_all (\<lambda>w. w \<in> set white_space)
      [[CHR '' ''], [CHR 0x09], [CHR 0xC2, CHR 0xA0], [CHR 0xE3, CHR 0x80, CHR 0x80]]"
    by (simp add: white_space_def)
  have i: "inputEl doc_blank = Some \<lparr>input_value = blank_input, focused = True\<rparr>"
    by (simp add: doc_blank_def)
  have h1: "trim (input_value \<lparr>input_value = blank_input, focused = True\<rparr>) = [] \<or>
      list_all (\<lambda>w. w \<in> set white_space) [] \<and>
      input_value \<lparr>input_value = blank_input, focused = True\<rparr> = concat []"
    using t by simp
  have h2: "trim (input_value \<lparr>input_value = blank_input, focused = True\<rparr>) = [] \<or>
      list_all (\<lambda>w. w \<in> set white_space)
        [[CHR '' ''], [CHR 0x09], [CHR 0xC2, CHR 0xA0], [CHR 0xE3, CHR 0x80, CHR 0x80]] \<and>
      input_value \<lparr>input_value = blank_input, focused = True\<rparr> =
        concat [[CHR '' ''], [CHR 0x09], [CHR 0xC2, CHR 0xA0], [CHR 0xE3, CHR 0x80, CHR 0x80]]"
    using w c by simp
  have j: "inputEl (doc_blank\<lparr>inputEl := Some \<lparr>input_value = [], focused = False\<rparr>\<rparr>) =
      Some \<lparr>input_value = [], focused = False\<rparr>"
    by simp
  have h3: "trim (input_value \<lparr>input_value = [], focused = False\<rparr>) = [] \<or>
      list_all (\<lambda>w. w \<in> set white_space) [] \<and>
      input_value \<lparr>input_value = [], focused = False\<rparr> = concat []"
    by simp
  note a = sendMessage_blank [OF i h1]
  note b = sendMessage_blank [OF i h2]
  note e = sendMessage_blank [OF j h3]
  from t c a b e show ?thesis by blast
qed

section \<open>Properties of the sign-in callback page\<close>

text \<open>
  Claim C2. When \<^verbatim>\<open>handleSigninCallback\<close> rejects with an error whose message is \<open>m\<close>, the
  page shows exactly \<^verbatim>\<open>Sign-in failed: \<close> followed by \<open>m\<close>; for the message \<^verbatim>\<open>bad state\<close>
  it shows \<^verbatim>\<open>Sign-in failed: bad state\<close>; and the page does not navigate.
\<close>

theorem SigninCallback_rejected:
  "SigninCallback_render (SigninCallback_effect (Rejected e) page) =
     ''Sign-in failed: '' @ message e \<and>
   navigated (SigninCallback_effect (Rejected e) page) = navigated page \<and>
   map SigninCallback_render (SigninCallback_mount (Rejected (Error m))) =
     [''Signing you in'' @ [CHR 0xE2, CHR 0x80, CHR 0xA6], ''Sign-in failed: '' @ m] \<and>
   map SigninCallback_render (SigninCallback_mount (Rejected (Error ''bad state''))) =
     [''Signing you in'' @ [CHR 0xE2, CHR 0x80, CHR 0xA6], ''Sign-in failed: bad state''] \<and>
   map navigated (SigninCallback_mount (Rejected e)) = [[], []]"
  by (simp add: SigninCallback_render_def SigninCallback_effect_def SigninCallback_mount_def
      SigninCallback_initial_def)

text \<open>
  Claim C3. When \<^verbatim>\<open>handleSigninCallback\<close> resolves, the page navigates to
  \<^verbatim>\<open>/app/viewer\<close> and the text it shows stays the initial one: no render of the mount
  shows a \<^verbatim>\<open>Sign-in failed:\<close> message.
\<close>

theorem SigninCallback_resolved:
  "navigated (SigninCallback_effect (Resolved u) page) = navigated page @ [''/app/viewer''] \<and>
   SigninCallback_render (SigninCallback_effect (Resolved u) page) = SigninCallback_render page \<and>
   map navigated (SigninCallback_mount (Resolved u)) = [[], [''/app/viewer'']] \<and>
   map SigninCallback_render (SigninCallback_mount (Resolved u)) =
     [''Signing you in'' @ [CHR 0xE2, CHR 0x80, CHR 0xA6],
      ''Signing you in'' @ [CHR 0xE2, CHR 0x80, CHR 0xA6]] \<and>
   list_all (\<lambda>p. \<not> prefix ''Sign-in failed:'' (SigninCallback_render p))
     (SigninCallback_mount (Resolved u))"
  by (simp add: SigninCallback_render_def SigninCallback_effect_def SigninCallback_mount_def
      SigninCallback_initial_def)

section \<open>Properties of the Viewer page\<close>

lemma strip_trailing_slashes_decomp:
  "\<exists>n. s = strip_trailing_slashes s @ replicate n (CHR ''/'')"
proof -
  let ?P = "\<lambda>c. c = CHR ''/''"
  have "rev s = takeWhile ?P (rev s) @ dropWhile ?P (rev s)"
    by simp
  then have "s = rev (dropWhile ?P (rev s)) @ rev (takeWhile ?P (rev s))"
    by (metis rev_append rev_rev_ident)
  moreover have "takeWhile ?P (rev s) = replicate (length (takeWhile ?P (rev s))) (CHR ''/'')"
    by (rule replicate_eqI) (auto dest: set_takeWhileD)
  then have "rev (takeWhile ?P (rev s)) =
      replicate (length (takeWhile ?P (rev s))) (CHR ''/'')"
    by (metis rev_replicate)
  ultimately have "s = strip_trailing_slashes s @
      replicate (length (takeWhile ?P (rev s))) (CHR ''/'')"
    by (simp add: strip_trailing_slashes_def)
  then show ?thesis ..
qed

lemma strip_trailing_slashes_no_slash:
  "\<not> suffix ''/'' (strip_trailing_slashes s)"
proof (cases "dropWhile (\<lambda>c. c = CHR ''/'') (rev s)")
  case Nil
  show ?thesis unfolding strip_trailing_slashes_def Nil by simp
next
  case (Cons y ys)
  then have "dropWhile (\<lambda>c. c = CHR ''/'') (rev s) \<noteq> []" by simp
  then have "\<not> (hd (dropWhile (\<lambda>c. c = CHR ''/'') (rev s)) = CHR ''/'')"
    by (rule hd_dropWhile)
  with Cons have "y \<noteq> CHR ''/''" by simp
  with Cons show ?thesis by (auto simp: strip_trailing_slashes_def suffix_def)
qed

text \<open>
  Claim C7. Clicking the second hotspot (\<^verbatim>\<open>showroom\<close>) makes the details pane show that
  hotspot's title, description and link, and the link's \<^verbatim>\<open>href\<close> is the configured
  marketing base URL without its trailing slashes, followed by the hotspot's \<^verbatim>\<open>ctaPath\<close>.
\<close>

theorem Viewer_click_showroom:
  "Viewer_click 1 selected = Some (DEFAULT_HOTSPOTS ! 1) \<and>
   hotspot_id (DEFAULT_HOTSPOTS ! 1) = ''showroom'' \<and>
   Viewer_details e (Viewer_click 1 selected) =
     Some \<lparr>shown_title = title (DEFAULT_HOTSPOTS ! 1),
           shown_description = description (DEFAULT_HOTSPOTS ! 1),
           href = strip_trailing_slashes (marketingBaseUrl e) @ ctaPath (DEFAULT_HOTSPOTS ! 1),
           link_label = ctaLabel (DEFAULT_HOTSPOTS ! 1)\<rparr> \<and>
   Viewer_details e (Viewer_click 1 selected) =
     Some \<lparr>shown_title = ''Showroom'',
           shown_description = ''Explore services and offerings tied to model locations.'',
           href = strip_trailing_slashes (marketingBaseUrl e) @ ''/services'',
           link_label = ''View Services''\<rparr> \<and>
   (\<exists>n. marketingBaseUrl e =
      strip_trailing_slashes (marketingBaseUrl e) @ replicate n (CHR ''/'')) \<and>
   \<not> suffix ''/'' (strip_trailing_slashes (marketingBaseUrl e))"
proof -
  have c: "Viewer_click 1 selected = Some (DEFAULT_HOTSPOTS ! 1)"
    by (simp add: Viewer_click_def Viewer_buttons_def DEFAULT_HOTSPOTS_def)
  have h: "DEFAULT_HOTSPOTS ! 1 =
      \<lparr>hotspot_id = ''showroom'', title = ''Showroom'',
       description = ''Explore services and offerings tied to model locations.'',
       ctaLabel = ''View Services'', ctaPath = ''/services''\<rparr>"
    by (simp add: DEFAULT_HOTSPOTS_def)
  have d: "Viewer_details e (Some (DEFAULT_HOTSPOTS ! 1)) =
     Some \<lparr>shown_title = ''Showroom'',
           shown_description = ''Explore services and offerings tied to model locations.'',
           href = strip_trailing_slashes (marketingBaseUrl e) @ ''/services'',
           link_label = ''View Services''\<rparr>"
    unfolding h by (simp add: Viewer_details_def marketingUrl_def)
  from c d strip_trailing_slashes_decomp [of "marketingBaseUrl e"]
    strip_trailing_slashes_no_slash [of "marketingBaseUrl e"]
  show ?thesis by (simp add: DEFAULT_HOTSPOTS_def)
qed

theorem Viewer_click_showroom_witness:
  "Viewer_details app_env_slashes (Viewer_click 1 Viewer_initial) =
     Some \<lparr>shown_title = ''Showroom'',
           shown_description = ''Explore services and offerings tied to model locations.'',
           href = ''https://gem.example/site/services'',
           link_label = ''View Services''\<rparr>"
proof -
  have "Viewer_details app_env_slashes (Viewer_click 1 Viewer_initial) =
     Some \<lparr>shown_title = ''Showroom'',
           shown_description = ''Explore services and offerings tied to model locations.'',
           href = strip_trailing_slashes (marketingBaseUrl app_env_slashes) @ ''/services'',
           link_label = ''View Services''\<rparr>"
    using Viewer_click_showroom [of Viewer_initial app_env_slashes] by blast
  then show ?thesis
    by (simp add: app_env_slashes_def strip_trailing_slashes_def)
qed

end
